theory Spec2Isabelle
  imports Complex_Main "HOL-Library.Sublist" "HOL-Library.State_Monad"
begin

section \<open>JavaScript values and thrown values\<close>

text \<open>
  The arguments of a tool call arrive as parsed JSON, so the \<open>timezone\<close> field can hold
  any JSON value: the cast \<open>args?.timezone as string | undefined\<close> is erased at run time.
  A finite number is kept as the rational it denotes (minus zero as zero); a literal too
  large for a double parses to an infinity, \<open>JInfinity True\<close> being \<open>+Infinity\<close>.  The
  decimal rendering of a finite number is a service of the engine (see
  \<open>numberToString\<close> below).  Strings are lists of characters.
\<close>

datatype jsvalue =
    JUndefined
  | JNull
  | JBool bool
  | JNumber rat
  | JInfinity bool
  | JString string
  | JArray "jsvalue list"
  | JObject "(string \<times> jsvalue) list"

text \<open>What a \<open>throw\<close> can carry: an instance of \<open>Error\<close> (or of a subclass such as
  \<open>RangeError\<close>) with its message, or some value that is not an \<open>Error\<close>.\<close>

datatype error_class = Error | RangeError | TypeError

datatype thrown =
    Exception error_class string
  | NonError jsvalue

text \<open>ToBoolean, as used by \<open>!timezone\<close>.\<close>

fun truthy :: "jsvalue \<Rightarrow> bool" where
  "truthy JUndefined = False"
| "truthy JNull = False"
| "truthy (JBool b) = b"
| "truthy (JNumber r) = (r \<noteq> 0)"
| "truthy (JInfinity positive) = True"
| "truthy (JString s) = (s \<noteq> [])"
| "truthy (JArray xs) = True"
| "truthy (JObject kvs) = True"

section \<open>Calendar arithmetic of the Date object\<close>

text \<open>
  A time value is a number of milliseconds since 1970-01-01T00:00:00Z.  The functions
  below are the day and time functions of ECMA-262 (section "Time Values and Time
  Range"), which \<open>Date.prototype.toISOString\<close> and \<open>Intl.DateTimeFormat\<close> use to split a
  time value into calendar fields.
\<close>

definition msPerDay :: int where "msPerDay = 86400000"

definition Day :: "int \<Rightarrow> int" where
  "Day t = t div msPerDay"

definition TimeWithinDay :: "int \<Rightarrow> int" where
  "TimeWithinDay t = t mod msPerDay"

definition DaysInYear :: "int \<Rightarrow> int" where
  "DaysInYear y =
     (if y mod 4 \<noteq> 0 then 365
      else if y mod 100 \<noteq> 0 then 366
      else if y mod 400 \<noteq> 0 then 365
      else 366)"

definition DayFromYear :: "int \<Rightarrow> int" where
  "DayFromYear y =
     365 * (y - 1970) + (y - 1969) div 4 - (y - 1901) div 100 + (y - 1601) div 400"

definition TimeFromYear :: "int \<Rightarrow> int" where
  "TimeFromYear y = msPerDay * DayFromYear y"

text \<open>
  ECMA-262 defines \<open>YearFromTime t\<close> as the largest \<open>y\<close> with \<open>TimeFromYear y \<le> t\<close>.
  The executable form counts from 2001-01-01 (day 11323): whole 400-year cycles of
  146097 days, then centuries of 36524 days (at most three), then four-year groups of
  1461 days, then years of 365 days (at most three).  Lemma \<open>YearFromTime_bounds\<close>
  below shows that it computes the year ECMA-262 describes.
\<close>

definition YearFromDay :: "int \<Rightarrow> int" where
  "YearFromDay d =
     (let d0 = d - 11323;
          n400 = d0 div 146097;
          r400 = d0 mod 146097;
          n100 = min 3 (r400 div 36524);
          r100 = r400 - 36524 * n100;
          n4 = r100 div 1461;
          r4 = r100 mod 1461;
          n1 = min 3 (r4 div 365)
      in 2001 + 400 * n400 + 100 * n100 + 4 * n4 + n1)"

definition YearFromTime :: "int \<Rightarrow> int" where
  "YearFromTime t = YearFromDay (Day t)"

definition InLeapYear :: "int \<Rightarrow> int" where
  "InLeapYear t = (if DaysInYear (YearFromTime t) = 366 then 1 else 0)"

definition DayWithinYear :: "int \<Rightarrow> int" where
  "DayWithinYear t = Day t - DayFromYear (YearFromTime t)"

definition MonthFromTime :: "int \<Rightarrow> int" where
  "MonthFromTime t =
     (let d = DayWithinYear t; l = InLeapYear t
      in if d < 31 then 0
         else if d < 59 + l then 1
         else if d < 90 + l then 2
         else if d < 120 + l then 3
         else if d < 151 + l then 4
         else if d < 181 + l then 5
         else if d < 212 + l then 6
         else if d < 243 + l then 7
         else if d < 273 + l then 8
         else if d < 304 + l then 9
         else if d < 334 + l then 10
         else 11)"

definition DateFromTime :: "int \<Rightarrow> int" where
  "DateFromTime t =
     (let d = DayWithinYear t; l = InLeapYear t; m = MonthFromTime t
      in if m = 0 then d + 1
         else if m = 1 then d - 30
         else if m = 2 then d - 58 - l
         else if m = 3 then d - 89 - l
         else if m = 4 then d - 119 - l
         else if m = 5 then d - 150 - l
         else if m = 6 then d - 180 - l
         else if m = 7 then d - 211 - l
         else if m = 8 then d - 242 - l
         else if m = 9 then d - 272 - l
         else if m = 10 then d - 303 - l
         else d - 333 - l)"

definition HourFromTime :: "int \<Rightarrow> int" where
  "HourFromTime t = (t div 3600000) mod 24"

definition MinFromTime :: "int \<Rightarrow> int" where
  "MinFromTime t = (t div 60000) mod 60"

definition SecFromTime :: "int \<Rightarrow> int" where
  "SecFromTime t = (t div 1000) mod 60"

definition msFromTime :: "int \<Rightarrow> int" where
  "msFromTime t = t mod 1000"


section \<open>Rendering numbers\<close>

definition digit_char :: "nat \<Rightarrow> char" where
  "digit_char n = ''0123456789'' ! (n mod 10)"

fun decimal :: "nat \<Rightarrow> string" where
  "decimal n = (if n < 10 then [digit_char n] else decimal (n div 10) @ [digit_char n])"

declare decimal.simps [simp del]

text \<open>\<open>padStart w s\<close> is \<open>s.padStart(w, "0")\<close>: zeros in front, up to width \<open>w\<close>.\<close>

definition padStart :: "nat \<Rightarrow> string \<Rightarrow> string" where
  "padStart w s = replicate (w - length s) (CHR ''0'') @ s"

definition pad2 :: "int \<Rightarrow> string" where
  "pad2 n = padStart 2 (decimal (nat n))"

definition pad3 :: "int \<Rightarrow> string" where
  "pad3 n = padStart 3 (decimal (nat n))"

section \<open>Date.prototype.toISOString\<close>

text \<open>
  ECMA-262: the year is written with four digits when it lies in 0..9999 and as a sign
  followed by six digits otherwise; every other field has a fixed width; the zone
  designator is \<open>Z\<close>.
\<close>

definition isoYear :: "int \<Rightarrow> string" where
  "isoYear y =
     (if 0 \<le> y \<and> y \<le> 9999 then padStart 4 (decimal (nat y))
      else if y < 0 then ''-'' @ padStart 6 (decimal (nat (- y)))
      else ''+'' @ padStart 6 (decimal (nat y)))"

definition toISOString :: "int \<Rightarrow> string" where
  "toISOString t =
     isoYear (YearFromTime t) @ ''-'' @ pad2 (MonthFromTime t + 1) @ ''-'' @
     pad2 (DateFromTime t) @ ''T'' @ pad2 (HourFromTime t) @ '':'' @
     pad2 (MinFromTime t) @ '':'' @ pad2 (SecFromTime t) @ ''.'' @
     pad3 (msFromTime t) @ ''Z''"

section \<open>The host platform\<close>

text \<open>
  What the program takes from the JavaScript engine and its time zone data and does not
  define itself:
  \<^item> \<open>numberToString\<close>: the decimal text of a number (\<open>Number::toString\<close>);
  \<^item> \<open>toPrimitiveError\<close>: the message of the \<open>TypeError\<close> the engine throws when an
    object cannot be converted to a primitive value;
  \<^item> \<open>timeZoneRules\<close>: what the constructor of \<open>Intl.DateTimeFormat\<close> does with the text
    of its \<open>timeZone\<close> option.  For a text it accepts (the IANA zone names it knows and,
    on engines that support them, UTC offsets such as \<open>+05:30\<close>) it gives the zone's
    offset from UTC, in milliseconds, at each instant; for any other text it gives the
    exception the constructor throws (a \<open>RangeError\<close>);
  \<^item> \<open>hourCycle\<close>: how the engine resolves \<open>hour12: false\<close> for the locale \<open>en-US\<close>:
    hours 00-23, or hours 01-24 (midnight written \<open>24\<close>), depending on the edition of
    ECMA-402 it implements;
  \<^item> \<open>timeZoneShortName\<close>: the text of the \<open>timeZoneName\<close> part.
\<close>

datatype hour_cycle = H23 | H24

record platform =
  numberToString :: "rat \<Rightarrow> string"
  toPrimitiveError :: string
  timeZoneRules :: "string \<Rightarrow> thrown + (int \<Rightarrow> int)"
  hourCycle :: hour_cycle
  timeZoneShortName :: "string \<Rightarrow> int \<Rightarrow> string"

fun join :: "string \<Rightarrow> string list \<Rightarrow> string" where
  "join sep [] = []"
| "join sep [x] = x"
| "join sep (x # y # ys) = x @ sep @ join sep (y # ys)"

text \<open>Conversions run left to right; the first one that throws ends the whole.\<close>

fun sequence :: "(thrown + string) list \<Rightarrow> thrown + string list" where
  "sequence [] = Inr []"
| "sequence (Inl e # rs) = Inl e"
| "sequence (Inr x # rs) = (case sequence rs of Inl e \<Rightarrow> Inl e | Inr xs \<Rightarrow> Inr (x # xs))"

text \<open>
  ToString, as applied by a template literal and by the \<open>timeZone\<close> option.  An array
  is joined with commas, \<open>undefined\<close> and \<open>null\<close> elements giving the empty text.  An
  object parsed from JSON inherits \<open>Object.prototype.toString\<close> and reads
  \<open>[object Object]\<close>, unless it has a key \<open>toString\<close> of its own: that value is not a
  function, \<open>valueOf\<close> does not give a primitive either, and the conversion throws a
  \<open>TypeError\<close>.
\<close>

fun ToString :: "platform \<Rightarrow> jsvalue \<Rightarrow> thrown + string" where
  "ToString P JUndefined = Inr ''undefined''"
| "ToString P JNull = Inr ''null''"
| "ToString P (JBool b) = Inr (if b then ''true'' else ''false'')"
| "ToString P (JNumber r) = Inr (numberToString P r)"
| "ToString P (JInfinity positive) = Inr (if positive then ''Infinity'' else ''-Infinity'')"
| "ToString P (JString s) = Inr s"
| "ToString P (JArray xs) =
     (case sequence (map (\<lambda>x. if x = JUndefined \<or> x = JNull then Inr [] else ToString P x) xs) of
        Inl e \<Rightarrow> Inl e
      | Inr texts \<Rightarrow> Inr (join '','' texts))"
| "ToString P (JObject kvs) =
     (if map_of kvs ''toString'' \<noteq> None
      then Inl (Exception TypeError (toPrimitiveError P))
      else Inr ''[object Object]'')"

section \<open>Intl.DateTimeFormat for en-US\<close>

text \<open>
  The formatter built at lines 55-66: locale \<open>en-US\<close>, numeric year, two-digit month,
  day, hour, minute and second, three fractional second digits, \<open>hour12: false\<close>, short
  zone name.  The constructor converts the \<open>timeZone\<close> option to a string, which can
  throw, and looks the string up, which can throw too; the formatter it returns holds
  the zone's text and its offset function.
\<close>

record formatter =
  zoneText :: string
  zoneOffset :: "int \<Rightarrow> int"

definition DateTimeFormat :: "platform \<Rightarrow> jsvalue \<Rightarrow> thrown + formatter" where
  "DateTimeFormat P timeZone =
     (case ToString P timeZone of
        Inl e \<Rightarrow> Inl e
      | Inr zone \<Rightarrow>
          (case timeZoneRules P zone of
             Inl e \<Rightarrow> Inl e
           | Inr offset \<Rightarrow> Inr \<lparr> zoneText = zone, zoneOffset = offset \<rparr>))"

text \<open>The year of the Gregorian calendar without an era: 1 BC is year 1.\<close>

definition numericYear :: "int \<Rightarrow> string" where
  "numericYear y = decimal (nat (if 0 < y then y else 1 - y))"

definition hourField :: "platform \<Rightarrow> int \<Rightarrow> string" where
  "hourField P t =
     (let h = HourFromTime t
      in pad2 (if hourCycle P = H24 \<and> h = 0 then 24 else h))"

text \<open>\<open>formatToParts\<close>: the fields of the instant as a clock in the zone shows them, in
  the order of the en-US pattern \<open>MM/dd/y, HH:mm:ss.SSS z\<close>.\<close>

definition formatToParts :: "platform \<Rightarrow> formatter \<Rightarrow> int \<Rightarrow> (string \<times> string) list" where
  "formatToParts P fmt now =
     (let t = now + zoneOffset fmt now
      in [(''month'', pad2 (MonthFromTime t + 1)),
          (''literal'', ''/''),
          (''day'', pad2 (DateFromTime t)),
          (''literal'', ''/''),
          (''year'', numericYear (YearFromTime t)),
          (''literal'', '', ''),
          (''hour'', hourField P t),
          (''literal'', '':''),
          (''minute'', pad2 (MinFromTime t)),
          (''literal'', '':''),
          (''second'', pad2 (SecFromTime t)),
          (''literal'', ''.''),
          (''fractionalSecond'', pad3 (msFromTime t)),
          (''literal'', '' ''),
          (''timeZoneName'', timeZoneShortName P (zoneText fmt) now)])"

text \<open>\<open>Object.fromEntries\<close>: a later entry replaces an earlier one with the same key.\<close>

definition fromEntries :: "(string \<times> string) list \<Rightarrow> (string \<rightharpoonup> string)" where
  "fromEntries es = foldl (\<lambda>m (k, v). m(k \<mapsto> v)) Map.empty es"

text \<open>A property read inside a template literal: a missing key reads as \<open>undefined\<close>.\<close>

definition readProp :: "(string \<rightharpoonup> string) \<Rightarrow> string \<Rightarrow> string" where
  "readProp m k = (case m k of None \<Rightarrow> ''undefined'' | Some v \<Rightarrow> v)"

section \<open>getCurrentTime\<close>

text \<open>The body of the \<open>try\<close> block, lines 52-76.\<close>

definition zonedIsoString :: "platform \<Rightarrow> int \<Rightarrow> jsvalue \<Rightarrow> thrown + string" where
  "zonedIsoString P now timezone =
     (case DateTimeFormat P timezone of
        Inl e \<Rightarrow> Inl e
      | Inr fmt \<Rightarrow>
          (let parts = formatToParts P fmt now;
               partsMap = fromEntries parts
           in Inr (readProp partsMap ''year'' @ ''-'' @ readProp partsMap ''month'' @ ''-'' @
                   readProp partsMap ''day'' @ ''T'' @ readProp partsMap ''hour'' @ '':'' @
                   readProp partsMap ''minute'' @ '':'' @ readProp partsMap ''second'' @ ''.'' @
                   readProp partsMap ''fractionalSecond'')))"

text \<open>The text of the template literal at line 80, given the text of \<open>${timezone}\<close>.\<close>

definition invalidTimezoneMessage :: "string \<Rightarrow> string" where
  "invalidTimezoneMessage zone =
     ''Invalid timezone: '' @ zone @
     ''. Please provide a valid IANA timezone identifier (e.g., 'America/New_York', 'Europe/London', 'UTC').''"

text \<open>
  \<open>now\<close> is the time value that \<open>new Date()\<close> captured.  The \<open>catch\<close> block converts
  \<open>timezone\<close> to a string inside its template literal before it can build the \<open>Error\<close>;
  when that conversion throws, its exception is the one that leaves the function.
\<close>

definition getCurrentTime :: "platform \<Rightarrow> int \<Rightarrow> jsvalue \<Rightarrow> thrown + string" where
  "getCurrentTime P now timezone =
     (if \<not> truthy timezone then Inr (toISOString now)
      else (case zonedIsoString P now timezone of
              Inr isoString \<Rightarrow> Inr isoString
            | Inl error \<Rightarrow>
                (case ToString P timezone of
                   Inl e \<Rightarrow> Inl e
                 | Inr zone \<Rightarrow> Inl (Exception Error (invalidTimezoneMessage zone)))))"

section \<open>The tool registry\<close>

record schema_property =
  type :: string
  description :: string

text \<open>\<open>required\<close> is the optional \<open>required\<close> key of a JSON schema; the literal at
  lines 26-35 has none.\<close>

record input_schema =
  type :: string
  properties :: "(string \<times> schema_property) list"
  required :: "string list option"

record tool =
  name :: string
  description :: string
  inputSchema :: input_schema

definition GET_CURRENT_TIME_TOOL :: tool where
  "GET_CURRENT_TIME_TOOL =
     \<lparr> name = ''getCurrentTime'',
       tool.description =
         ''Returns the current date and time in ISO 8601 format. Optionally accepts a timezone parameter to return the time in a specific timezone (e.g., 'America/New_York', 'Europe/London', 'Asia/Tokyo').'',
       inputSchema =
         \<lparr> input_schema.type = ''object'',
           properties =
             [(''timezone'',
               \<lparr> schema_property.type = ''string'',
                 schema_property.description =
                   ''Optional IANA timezone identifier (e.g., 'America/New_York', 'Europe/London', 'UTC'). If not provided, returns time in UTC.'' \<rparr>)],
           required = None \<rparr> \<rparr>"

section \<open>The request handlers\<close>

record content_item =
  type :: string
  "text" :: string

text \<open>\<open>isError\<close> is an optional field: the success object of lines 127-134 does not
  have it.  The protocol reads a missing flag as false.\<close>

record tool_response =
  content :: "content_item list"
  isError :: "bool option"

definition isErrorFlag :: "tool_response \<Rightarrow> bool" where
  "isErrorFlag r = (case isError r of None \<Rightarrow> False | Some b \<Rightarrow> b)"

text \<open>The \<open>arguments\<close> of a call: absent, or an object from field names to JSON values.\<close>

type_synonym arguments = "(string \<rightharpoonup> jsvalue) option"

text \<open>\<open>args?.timezone\<close>\<close>

definition argsTimezone :: "arguments \<Rightarrow> jsvalue" where
  "argsTimezone args =
     (case args of
        None \<Rightarrow> JUndefined
      | Some obj \<Rightarrow> (case obj ''timezone'' of None \<Rightarrow> JUndefined | Some v \<Rightarrow> v))"

text \<open>The handler of \<open>ListToolsRequestSchema\<close>, lines 106-110.\<close>

definition listTools :: "tool list" where
  "listTools = [GET_CURRENT_TIME_TOOL]"

text \<open>The handler of \<open>CallToolRequestSchema\<close>, lines 116-149.  \<open>Inl\<close> is an exception
  that leaves the handler; \<open>Inr\<close> is the object it returns.\<close>

definition callTool :: "platform \<Rightarrow> int \<Rightarrow> string \<Rightarrow> arguments \<Rightarrow> thrown + tool_response" where
  "callTool P now toolName args =
     (if toolName \<noteq> ''getCurrentTime''
      then Inl (Exception Error (''Unknown tool: '' @ toolName))
      else (case getCurrentTime P now (argsTimezone args) of
              Inr currentTime \<Rightarrow>
                Inr \<lparr> content = [\<lparr> type = ''text'', text = currentTime \<rparr>],
                      isError = None \<rparr>
            | Inl error \<Rightarrow>
                (let errorMessage =
                       (case error of
                          Exception cls message \<Rightarrow> message
                        | NonError v \<Rightarrow> ''Unknown error occurred'')
                 in Inr \<lparr> content = [\<lparr> type = ''text'',
                                        text = ''Error: '' @ errorMessage \<rparr>],
                          isError = Some True \<rparr>)))"

section \<open>The server as a transition system\<close>

text \<open>
  A request is served at the instant its handler reads the clock: \<open>handle\<close> gives the
  reply as a function of that instant, and \<open>step\<close> pairs it with the process memory
  \<open>mem\<close>.  The next section derives this view from the handlers written as programs
  over the state.
\<close>

datatype request = ListToolsRequest | CallToolRequest string arguments

datatype reply = ToolsResult "tool list" | CallResult tool_response | Fault thrown

definition handle :: "platform \<Rightarrow> int \<Rightarrow> request \<Rightarrow> reply" where
  "handle P now rq =
     (case rq of
        ListToolsRequest \<Rightarrow> ToolsResult listTools
      | CallToolRequest toolName args \<Rightarrow>
          (case callTool P now toolName args of
             Inl e \<Rightarrow> Fault e
           | Inr r \<Rightarrow> CallResult r))"

definition step :: "platform \<Rightarrow> 'mem \<Rightarrow> int \<times> request \<Rightarrow> reply \<times> 'mem" where
  "step P mem ev = (handle P (fst ev) (snd ev), mem)"

section \<open>The handlers as programs over the process state\<close>

text \<open>
  The state a handler can reach: the system clock, which \<open>new Date()\<close> reads, and the
  object that the module constant \<open>GET_CURRENT_TIME_TOOL\<close> is bound to, whose fields
  JavaScript would let any code overwrite.  Whatever else the process holds is the
  record's extension.  Each handler and \<open>getCurrentTime\<close> is written in the state
  monad, one step for each statement of the source that touches this state; the engine
  (\<open>platform\<close>) is taken to be the same throughout.
\<close>

record world =
  clock :: int
  toolObject :: tool

text \<open>\<open>new Date()\<close>, line 45.\<close>

definition newDate :: "('w world_scheme, int) state" where
  "newDate = State (\<lambda>w. (clock w, w))"

text \<open>Reading \<open>GET_CURRENT_TIME_TOOL\<close>, line 108.\<close>

definition readToolObject :: "('w world_scheme, tool) state" where
  "readToolObject = State (\<lambda>w. (toolObject w, w))"

definition getCurrentTimeM :: "platform \<Rightarrow> jsvalue \<Rightarrow> ('w world_scheme, thrown + string) state" where
  "getCurrentTimeM P timezone =
     State_Monad.bind newDate (\<lambda>now. State_Monad.return (getCurrentTime P now timezone))"

definition listToolsM :: "('w world_scheme, tool list) state" where
  "listToolsM = State_Monad.bind readToolObject (\<lambda>t. State_Monad.return [t])"

definition callToolM ::
  "platform \<Rightarrow> string \<Rightarrow> arguments \<Rightarrow> ('w world_scheme, thrown + tool_response) state" where
  "callToolM P toolName args =
     (if toolName \<noteq> ''getCurrentTime''
      then State_Monad.return (Inl (Exception Error (''Unknown tool: '' @ toolName)))
      else State_Monad.bind (getCurrentTimeM P (argsTimezone args))
             (\<lambda>outcome.
                State_Monad.return
                  (case outcome of
                     Inr currentTime \<Rightarrow>
                       Inr \<lparr> content = [\<lparr> type = ''text'', text = currentTime \<rparr>],
                             isError = None \<rparr>
                   | Inl error \<Rightarrow>
                       (let errorMessage =
                              (case error of
                                 Exception cls message \<Rightarrow> message
                               | NonError v \<Rightarrow> ''Unknown error occurred'')
                        in Inr \<lparr> content = [\<lparr> type = ''text'',
                                               text = ''Error: '' @ errorMessage \<rparr>],
                                 isError = Some True \<rparr>))))"

definition serveM :: "platform \<Rightarrow> request \<Rightarrow> ('w world_scheme, reply) state" where
  "serveM P rq =
     (case rq of
        ListToolsRequest \<Rightarrow>
          State_Monad.bind listToolsM (\<lambda>ts. State_Monad.return (ToolsResult ts))
      | CallToolRequest toolName args \<Rightarrow>
          State_Monad.bind (callToolM P toolName args)
            (\<lambda>outcome.
               State_Monad.return
                 (case outcome of Inl e \<Rightarrow> Fault e | Inr r \<Rightarrow> CallResult r)))"

text \<open>What happens to the process: the clock moves on, or a request comes in and is
  served.\<close>

datatype event = ClockMoves int | Incoming request

fun runM :: "platform \<Rightarrow> event list \<Rightarrow> 'w world_scheme \<Rightarrow> reply list \<times> 'w world_scheme" where
  "runM P [] w = ([], w)"
| "runM P (ClockMoves t # es) w = runM P es (w\<lparr>clock := t\<rparr>)"
| "runM P (Incoming rq # es) w =
     (let (r, w') = run_state (serveM P rq) w; (rs, w'') = runM P es w'
      in (r # rs, w''))"

section \<open>Reading a timestamp back\<close>

text \<open>
  What a timestamp of the shape \<open>YYYY-MM-DDTHH:mm:ss.mmm\<close> says, independently of how
  it was produced: its digits are read as decimal numbers, and ECMA-262's \<open>MakeDay\<close>,
  \<open>MakeTime\<close> and \<open>MakeDate\<close> give the time value of those calendar fields.
\<close>

definition digitValue :: "char \<Rightarrow> nat" where
  "digitValue c = of_char c - 48"

definition numberOf :: "string \<Rightarrow> int" where
  "numberOf s = int (foldl (\<lambda>n c. 10 * n + digitValue c) 0 s)"

definition fieldAt :: "string \<Rightarrow> nat \<Rightarrow> nat \<Rightarrow> int" where
  "fieldAt s i n = numberOf (take n (drop i s))"

text \<open>The day within the year on which month \<open>m\<close> (0 to 11) starts; \<open>12\<close> gives the
  length of the year.  \<open>l\<close> is 1 in a leap year and 0 otherwise.\<close>

definition monthStart :: "int \<Rightarrow> int \<Rightarrow> int" where
  "monthStart m l =
     (if m = 0 then 0
      else if m = 1 then 31
      else if m = 2 then 59 + l
      else if m = 3 then 90 + l
      else if m = 4 then 120 + l
      else if m = 5 then 151 + l
      else if m = 6 then 181 + l
      else if m = 7 then 212 + l
      else if m = 8 then 243 + l
      else if m = 9 then 273 + l
      else if m = 10 then 304 + l
      else if m = 11 then 334 + l
      else 365 + l)"

definition leapDays :: "int \<Rightarrow> int" where
  "leapDays y = (if DaysInYear y = 366 then 1 else 0)"

definition MakeDay :: "int \<Rightarrow> int \<Rightarrow> int \<Rightarrow> int" where
  "MakeDay year month date =
     (let ym = year + month div 12; mn = month mod 12
      in DayFromYear ym + monthStart mn (leapDays ym) + date - 1)"

definition MakeTime :: "int \<Rightarrow> int \<Rightarrow> int \<Rightarrow> int \<Rightarrow> int" where
  "MakeTime hour minute sec ms = hour * 3600000 + minute * 60000 + sec * 1000 + ms"

definition MakeDate :: "int \<Rightarrow> int \<Rightarrow> int" where
  "MakeDate day time = day * msPerDay + time"

text \<open>The fields of a timestamp are those of a calendar date and a time of day: month
  1 to 12, a day the month has, minute and second below 60.  The hour is given
  apart, since it depends on the hour cycle.\<close>

definition validDate :: "string \<Rightarrow> bool" where
  "validDate s =
     (let y = fieldAt s 0 4; m = fieldAt s 5 2; d = fieldAt s 8 2
      in 1 \<le> m \<and> m \<le> 12 \<and> 1 \<le> d \<and>
         d \<le> monthStart m (leapDays y) - monthStart (m - 1) (leapDays y) \<and>
         fieldAt s 14 2 < 60 \<and> fieldAt s 17 2 < 60)"

text \<open>The time value of the fields, with the hour as it stands (hours 00 to 23).\<close>

definition timeValueOf :: "string \<Rightarrow> int" where
  "timeValueOf s =
     MakeDate (MakeDay (fieldAt s 0 4) (fieldAt s 5 2 - 1) (fieldAt s 8 2))
       (MakeTime (fieldAt s 11 2) (fieldAt s 14 2) (fieldAt s 17 2) (fieldAt s 20 3))"




section \<open>Shapes of timestamps\<close>

definition is_digit :: "char \<Rightarrow> bool" where
  "is_digit c = (c \<in> set ''0123456789'')"

text \<open>\<open>matches pat s\<close>: \<open>s\<close> has the shape \<open>pat\<close>, in which each of the letters
  \<open>Y M D H m s\<close> stands for one decimal digit and any other character for itself.\<close>

fun matches :: "string \<Rightarrow> string \<Rightarrow> bool" where
  "matches [] [] = True"
| "matches (p # ps) (c # cs) =
     ((if p \<in> set ''YMDHms'' then is_digit c else c = p) \<and> matches ps cs)"
| "matches _ _ = False"

section \<open>A sample platform\<close>

text \<open>
  A small host used to run the definitions on concrete inputs: it accepts the zones
  \<open>UTC\<close> (offset 0) and \<open>Asia/Kolkata\<close> (offset +05:30 throughout) and the UTC offset
  \<open>+05:30\<close>, and rejects every other text with V8's message.  Its \<open>numberToString\<close> is
  right for whole numbers, which is all the sample runs use.
\<close>

definition samplePlatform :: platform where
  "samplePlatform =
     \<lparr> numberToString = (\<lambda>r. (if r < 0 then ''-'' else []) @ decimal (nat \<lfloor>\<bar>r\<bar>\<rfloor>)),
       toPrimitiveError = ''Cannot convert object to primitive value'',
       timeZoneRules =
         (\<lambda>z. if z = ''UTC'' then Inr (\<lambda>t. 0)
              else if z = ''Asia/Kolkata'' \<or> z = ''+05:30'' then Inr (\<lambda>t. 19800000)
              else Inl (Exception RangeError (''Invalid time zone specified: '' @ z))),
       hourCycle = H23,
       timeZoneShortName = (\<lambda>z t. if z = ''UTC'' then ''UTC'' else ''GMT+5:30'') \<rparr>"

section \<open>The calendar functions compute what ECMA-262 describes\<close>

lemma div_step:
  fixes x k :: int
  assumes k: "0 < k"
  shows "(x + 1) div k = x div k + (if (x + 1) mod k = 0 then 1 else 0)"
proof -
  define q where "q = x div k"
  define r where "r = x mod k"
  have x: "x = k * q + r" by (simp add: q_def r_def)
  have r: "0 \<le> r" "r < k" using k by (simp_all add: r_def)
  show ?thesis
  proof (cases "r = k - 1")
    case True
    have e: "x + 1 = k * (q + 1) + 0" using x True by (simp add: algebra_simps)
    have "(x + 1) div k = q + 1" using k by (intro int_div_pos_eq[OF e]) simp_all
    moreover have "(x + 1) mod k = 0" using k by (intro int_mod_pos_eq[OF e]) simp_all
    ultimately show ?thesis by (simp add: q_def)
  next
    case False
    have e: "x + 1 = k * q + (r + 1)" using x by simp
    have b: "0 \<le> r + 1" "r + 1 < k" using r False by simp_all
    have "(x + 1) div k = q" by (rule int_div_pos_eq[OF e b])
    moreover have "(x + 1) mod k = r + 1" by (rule int_mod_pos_eq[OF e b])
    ultimately show ?thesis using r by (simp add: q_def)
  qed
qed

lemma shift_mod:
  fixes y :: int
  shows "(y - k * c) mod k = y mod k"
proof -
  have "(y - k * c) mod k = (y + k * (- c)) mod k" by simp
  also have "\<dots> = y mod k" by (rule mod_mult_self2)
  finally show ?thesis .
qed

lemma DayFromYear_Suc: "DayFromYear (y + 1) = DayFromYear y + DaysInYear y"
proof -
  have m4: "(y - 1969 + 1) mod 4 = y mod 4" using shift_mod[of y 4 492] by simp
  have m100: "(y - 1901 + 1) mod 100 = y mod 100" using shift_mod[of y 100 19] by simp
  have m400: "(y - 1601 + 1) mod 400 = y mod 400" using shift_mod[of y 400 4] by simp
  have a: "(y + 1 - 1969) div 4 = (y - 1969) div 4 + (if y mod 4 = 0 then 1 else 0)"
    using div_step[of 4 "y - 1969"] m4 by (simp add: algebra_simps)
  have b: "(y + 1 - 1901) div 100 = (y - 1901) div 100 + (if y mod 100 = 0 then 1 else 0)"
    using div_step[of 100 "y - 1901"] m100 by (simp add: algebra_simps)
  have c: "(y + 1 - 1601) div 400 = (y - 1601) div 400 + (if y mod 400 = 0 then 1 else 0)"
    using div_step[of 400 "y - 1601"] m400 by (simp add: algebra_simps)
  have d: "y mod 100 = 0" if "y mod 400 = 0"
    using that mod_mod_cancel[of 100 400 y] by simp
  have e: "y mod 4 = 0" if "y mod 100 = 0"
    using that mod_mod_cancel[of 4 100 y] by simp
  show ?thesis
    unfolding DayFromYear_def DaysInYear_def a b c using d e by (simp add: algebra_simps)
qed


lemma DayFromYear_parts:
  assumes "0 \<le> b" "b \<le> 3" "0 \<le> c" "c \<le> 24" "0 \<le> e" "e \<le> 3"
  shows "DayFromYear (2001 + 400 * a + 100 * b + 4 * c + e) =
         11323 + 146097 * a + 36524 * b + 1461 * c + 365 * e"
proof -
  let ?y = "2001 + 400 * a + 100 * b + 4 * c + e"
  have e4: "?y - 1969 = 4 * (8 + 100 * a + 25 * b + c) + e" by simp
  have e100: "?y - 1901 = 100 * (1 + 4 * a + b) + (4 * c + e)" by simp
  have e400: "?y - 1601 = 400 * (1 + a) + (100 * b + 4 * c + e)" by simp
  have q4: "(?y - 1969) div 4 = 8 + 100 * a + 25 * b + c"
    using assms by (intro int_div_pos_eq[OF e4]) simp_all
  have q100: "(?y - 1901) div 100 = 1 + 4 * a + b"
    using assms by (intro int_div_pos_eq[OF e100]) simp_all
  have q400: "(?y - 1601) div 400 = 1 + a"
    using assms by (intro int_div_pos_eq[OF e400]) simp_all
  show ?thesis
    unfolding DayFromYear_def q4 q100 q400 by simp
qed


lemma DaysInYear_parts:
  assumes "0 \<le> b" "b \<le> 3" "0 \<le> c" "c \<le> 24" "0 \<le> e" "e \<le> 3"
  shows "DaysInYear (2001 + 400 * a + 100 * b + 4 * c + e) =
         (if e = 3 \<and> (c < 24 \<or> b = 3) then 366 else 365)"
proof -
  let ?y = "2001 + 400 * a + 100 * b + 4 * c + e"
  have e4: "?y = 4 * (500 + 100 * a + 25 * b + c) + (e + 1)" by simp
  have e4': "?y = 4 * (501 + 100 * a + 25 * b + c) + 0" if "e = 3" using that by simp
  have m4: "?y mod 4 = (if e = 3 then 0 else e + 1)"
  proof (cases "e = 3")
    case True
    then show ?thesis using int_mod_pos_eq[OF e4'[OF True]] by simp
  next
    case False
    then show ?thesis using assms int_mod_pos_eq[OF e4] by simp
  qed
  have e100: "?y = 100 * (20 + 4 * a + b) + (4 * c + e + 1)" by simp
  have e100': "?y = 100 * (21 + 4 * a + b) + 0" if "e = 3" "c = 24" using that by simp
  have m100: "?y mod 100 = (if e = 3 \<and> c = 24 then 0 else 4 * c + e + 1)"
  proof (cases "e = 3 \<and> c = 24")
    case True
    then show ?thesis using int_mod_pos_eq[OF e100'] by simp
  next
    case False
    then have "4 * c + e + 1 < 100" using assms by auto
    then show ?thesis using False assms int_mod_pos_eq[OF e100] by simp
  qed
  have e400: "?y = 400 * (5 + a) + (100 * b + 4 * c + e + 1)" by simp
  have e400': "?y = 400 * (6 + a) + 0" if "e = 3" "c = 24" "b = 3" using that by simp
  have m400: "?y mod 400 = (if e = 3 \<and> c = 24 \<and> b = 3 then 0 else 100 * b + 4 * c + e + 1)"
  proof (cases "e = 3 \<and> c = 24 \<and> b = 3")
    case True
    then show ?thesis using int_mod_pos_eq[OF e400'] by simp
  next
    case False
    then have "100 * b + 4 * c + e + 1 < 400" using assms by auto
    then show ?thesis using False assms int_mod_pos_eq[OF e400] by simp
  qed
  show ?thesis
    unfolding DaysInYear_def m4 m100 m400 using assms by auto
qed


lemma YearFromDay_bounds:
  "DayFromYear (YearFromDay d) \<le> d \<and>
   d < DayFromYear (YearFromDay d) + DaysInYear (YearFromDay d)"
proof -
  define d0 where "d0 = d - 11323"
  define a where "a = d0 div 146097"
  define r where "r = d0 mod 146097"
  define b where "b = min 3 (r div 36524)"
  define r1 where "r1 = r - 36524 * b"
  define c where "c = r1 div 1461"
  define r2 where "r2 = r1 mod 1461"
  define e where "e = min 3 (r2 div 365)"
  have y: "YearFromDay d = 2001 + 400 * a + 100 * b + 4 * c + e"
    unfolding YearFromDay_def Let_def d0_def a_def r_def b_def r1_def c_def r2_def e_def
    by simp
  have d: "d = 11323 + 146097 * a + r"
    unfolding a_def r_def d0_def by simp
  have r: "0 \<le> r" "r < 146097" unfolding r_def by simp_all
  have b: "0 \<le> b" "b \<le> 3" using r unfolding b_def by simp_all
  define q where "q = r div 36524"
  define m where "m = r mod 36524"
  have rq: "r = 36524 * q + m" unfolding q_def m_def by simp
  have m: "0 \<le> m" "m < 36524" unfolding m_def by simp_all
  have q0: "0 \<le> q" using r unfolding q_def by simp
  have q4: "q \<le> 4" using r rq m by linarith
  have bq: "b = min 3 q" unfolding b_def q_def by simp
  have r1_lo: "0 \<le> r1"
    using rq m q0 unfolding r1_def bq min_def by (cases "3 \<le> q") simp_all
  have r1_hi: "r1 \<le> 36524"
    using r rq m q4 unfolding r1_def bq min_def by (cases "3 \<le> q") simp_all
  have r1lt: "r1 < 36524" if "b < 3"
    using that rq m unfolding r1_def bq min_def by (cases "3 \<le> q") simp_all
  have c0: "0 \<le> c" using r1_lo unfolding c_def by simp
  have c24: "c \<le> 24"
  proof -
    have "r1 div 1461 \<le> 36524 div 1461" using r1_hi by (rule zdiv_mono1) simp
    then show ?thesis unfolding c_def by simp
  qed
  note b = b and c = c0 c24
  have r1': "r1 = 1461 * c + r2" unfolding c_def r2_def by simp
  have r2: "0 \<le> r2" "r2 < 1461" unfolding r2_def by simp_all
  have r2': "r2 < 1460" if "b < 3" "c = 24" using r1lt[OF that(1)] r1' that(2) by simp
  define q1 where "q1 = r2 div 365"
  define m1 where "m1 = r2 mod 365"
  have r2q: "r2 = 365 * q1 + m1" unfolding q1_def m1_def by simp
  have m1: "0 \<le> m1" "m1 < 365" unfolding m1_def by simp_all
  have q1: "0 \<le> q1" using r2 unfolding q1_def by simp
  have eq: "e = min 3 q1" unfolding e_def q1_def by simp
  have e: "0 \<le> e" "e \<le> 3" using q1 unfolding eq by simp_all
  have lo: "365 * e \<le> r2"
    using r2q m1 q1 unfolding eq min_def by (cases "3 \<le> q1") simp_all
  have hi: "r2 < 365 * e + 365" if "e < 3"
    using that r2q m1 unfolding eq min_def by (cases "3 \<le> q1") simp_all
  have dfy: "DayFromYear (YearFromDay d) = 11323 + 146097 * a + 36524 * b + 1461 * c + 365 * e"
    unfolding y by (rule DayFromYear_parts[OF b c e])
  have diy: "DaysInYear (YearFromDay d) = (if e = 3 \<and> (c < 24 \<or> b = 3) then 366 else 365)"
    unfolding y by (rule DaysInYear_parts[OF b c e])
  have off: "d - DayFromYear (YearFromDay d) = r2 - 365 * e"
  proof -
    have "r = 36524 * b + 1461 * c + r2" using r1' r1_def by linarith
    then show ?thesis using dfy d by linarith
  qed
  have "0 \<le> r2 - 365 * e" using lo by simp
  moreover have "r2 - 365 * e < DaysInYear (YearFromDay d)"
  proof (cases "e < 3")
    case True
    then show ?thesis using hi diy by simp
  next
    case False
    then have e3: "e = 3" using e by simp
    show ?thesis
    proof (cases "c < 24 \<or> b = 3")
      case True
      then show ?thesis using diy e3 r2 by simp
    next
      case False
      then have "c = 24" "b < 3" using c b by simp_all
      then show ?thesis using diy e3 r2' by simp
    qed
  qed
  ultimately show ?thesis using off by linarith
qed


lemma DaysInYear_pos: "365 \<le> DaysInYear y"
  unfolding DaysInYear_def by simp

lemma DayFromYear_mono:
  assumes "y \<le> z"
  shows "DayFromYear y \<le> DayFromYear z"
  using assms
proof (induction z rule: int_ge_induct)
  case base
  show ?case by simp
next
  case (step i)
  have "DayFromYear i \<le> DayFromYear (i + 1)"
    using DayFromYear_Suc[of i] DaysInYear_pos[of i] by linarith
  with step.IH show ?case by linarith
qed

lemma Day_less_iff: "Day t < k \<longleftrightarrow> t < msPerDay * k"
proof -
  define q where "q = t div 86400000"
  define r where "r = t mod 86400000"
  have t: "t = 86400000 * q + r" unfolding q_def r_def by simp
  have r: "0 \<le> r" "r < 86400000" unfolding r_def by simp_all
  have "q < k \<longleftrightarrow> t < 86400000 * k" using t r by linarith
  then show ?thesis unfolding Day_def msPerDay_def q_def .
qed

lemma Day_ge_iff: "k \<le> Day t \<longleftrightarrow> msPerDay * k \<le> t"
  using Day_less_iff[of t k] by linarith

lemma YearFromTime_bounds:
  "TimeFromYear (YearFromTime t) \<le> t \<and> t < TimeFromYear (YearFromTime t + 1)"
proof -
  have "DayFromYear (YearFromTime t) \<le> Day t"
    and "Day t < DayFromYear (YearFromTime t + 1)"
    using YearFromDay_bounds[of "Day t"] DayFromYear_Suc[of "YearFromTime t"]
    unfolding YearFromTime_def by simp_all
  then show ?thesis
    unfolding TimeFromYear_def by (simp add: Day_less_iff Day_ge_iff)
qed

lemma YearFromTime_greatest:
  assumes "TimeFromYear y \<le> t"
  shows "y \<le> YearFromTime t"
proof (rule ccontr)
  assume "\<not> y \<le> YearFromTime t"
  then have "YearFromTime t + 1 \<le> y" by simp
  then have "DayFromYear (YearFromTime t + 1) \<le> DayFromYear y" by (rule DayFromYear_mono)
  then have "TimeFromYear (YearFromTime t + 1) \<le> TimeFromYear y"
    unfolding TimeFromYear_def msPerDay_def by simp
  with assms YearFromTime_bounds[of t] show False by linarith
qed

lemma YearFromTime_less:
  assumes "t < TimeFromYear z"
  shows "YearFromTime t < z"
proof (rule ccontr)
  assume "\<not> YearFromTime t < z"
  then have "z \<le> YearFromTime t" by simp
  then have "DayFromYear z \<le> DayFromYear (YearFromTime t)" by (rule DayFromYear_mono)
  then have "TimeFromYear z \<le> TimeFromYear (YearFromTime t)"
    unfolding TimeFromYear_def msPerDay_def by simp
  with assms YearFromTime_bounds[of t] show False by linarith
qed

lemma DayWithinYear_bounds:
  "0 \<le> DayWithinYear t \<and> DayWithinYear t < 365 + InLeapYear t"
proof -
  have d: "DaysInYear (YearFromTime t) = 365 + InLeapYear t"
    unfolding InLeapYear_def DaysInYear_def by simp
  show ?thesis
    using YearFromDay_bounds[of "Day t"] d
    unfolding DayWithinYear_def YearFromTime_def by linarith
qed

lemma InLeapYear_cases: "InLeapYear t = 0 \<or> InLeapYear t = 1"
  unfolding InLeapYear_def by simp

lemma MonthFromTime_bounds: "0 \<le> MonthFromTime t \<and> MonthFromTime t \<le> 11"
  unfolding MonthFromTime_def Let_def by simp

lemma DateFromTime_bounds: "1 \<le> DateFromTime t \<and> DateFromTime t \<le> 31"
proof -
  define d where "d = DayWithinYear t"
  define l where "l = InLeapYear t"
  have d: "0 \<le> d" "d < 365 + l" using DayWithinYear_bounds[of t] unfolding d_def l_def by simp_all
  have l: "l = 0 \<or> l = 1" using InLeapYear_cases[of t] unfolding l_def .
  have m: "MonthFromTime t =
     (if d < 31 then 0
         else if d < 59 + l then 1
         else if d < 90 + l then 2
         else if d < 120 + l then 3
         else if d < 151 + l then 4
         else if d < 181 + l then 5
         else if d < 212 + l then 6
         else if d < 243 + l then 7
         else if d < 273 + l then 8
         else if d < 304 + l then 9
         else if d < 334 + l then 10
         else 11)"
    unfolding MonthFromTime_def Let_def d_def l_def ..
  have D: "DateFromTime t =
     (let m = MonthFromTime t
      in if m = 0 then d + 1
         else if m = 1 then d - 30
         else if m = 2 then d - 58 - l
         else if m = 3 then d - 89 - l
         else if m = 4 then d - 119 - l
         else if m = 5 then d - 150 - l
         else if m = 6 then d - 180 - l
         else if m = 7 then d - 211 - l
         else if m = 8 then d - 242 - l
         else if m = 9 then d - 272 - l
         else if m = 10 then d - 303 - l
         else d - 333 - l)"
    unfolding DateFromTime_def Let_def d_def l_def ..
  show ?thesis
    unfolding D m Let_def using d l by (auto split: if_splits)
qed

lemma HourFromTime_bounds: "0 \<le> HourFromTime t \<and> HourFromTime t < 24"
  unfolding HourFromTime_def by simp

lemma MinFromTime_bounds: "0 \<le> MinFromTime t \<and> MinFromTime t < 60"
  unfolding MinFromTime_def by simp

lemma SecFromTime_bounds: "0 \<le> SecFromTime t \<and> SecFromTime t < 60"
  unfolding SecFromTime_def by simp

lemma msFromTime_bounds: "0 \<le> msFromTime t \<and> msFromTime t < 1000"
  unfolding msFromTime_def by simp

section \<open>Fixed-width decimal fields\<close>

lemma is_digit_digit_char: "is_digit (digit_char n)"
proof -
  have "n mod 10 < length ''0123456789''" by simp
  then have "''0123456789'' ! (n mod 10) \<in> set ''0123456789''" by (rule nth_mem)
  then show ?thesis unfolding is_digit_def digit_char_def .
qed

lemma decimal_1: "n < 10 \<Longrightarrow> decimal n = [digit_char n]"
  by (simp add: decimal.simps)

lemma decimal_2:
  assumes "10 \<le> n" "n < 100"
  shows "decimal n = [digit_char (n div 10), digit_char n]"
proof -
  have "n div 10 < 10" using assms by simp
  then show ?thesis using assms decimal.simps[of n] by (simp add: decimal_1)
qed

lemma decimal_3:
  assumes "100 \<le> n" "n < 1000"
  shows "decimal n = [digit_char (n div 100), digit_char (n div 10), digit_char n]"
proof -
  have "10 \<le> n div 10" "n div 10 < 100" using assms by simp_all
  then have "decimal (n div 10) = [digit_char (n div 10 div 10), digit_char (n div 10)]"
    by (rule decimal_2)
  then show ?thesis using assms decimal.simps[of n] by (simp add: div_mult2_eq[symmetric])
qed

lemma decimal_4:
  assumes "1000 \<le> n" "n < 10000"
  shows "decimal n =
         [digit_char (n div 1000), digit_char (n div 100), digit_char (n div 10), digit_char n]"
proof -
  have "100 \<le> n div 10" "n div 10 < 1000" using assms by simp_all
  then have "decimal (n div 10) =
      [digit_char (n div 10 div 100), digit_char (n div 10 div 10), digit_char (n div 10)]"
    by (rule decimal_3)
  then show ?thesis using assms decimal.simps[of n] by (simp add: div_mult2_eq[symmetric])
qed

lemma replicate_2: "replicate 2 c = [c, c]"
  by (simp add: numeral_2_eq_2)

lemma replicate_3: "replicate 3 c = [c, c, c]"
  by (simp add: numeral_3_eq_3)

lemma padStart_2:
  assumes "n < 100"
  shows "padStart 2 (decimal n) = [digit_char (n div 10), digit_char n]"
proof (cases "n < 10")
  case True
  then show ?thesis by (simp add: padStart_def decimal_1 digit_char_def replicate_2 replicate_3)
next
  case False
  then show ?thesis using assms by (simp add: padStart_def decimal_2)
qed

lemma padStart_3:
  assumes "n < 1000"
  shows "padStart 3 (decimal n) = [digit_char (n div 100), digit_char (n div 10), digit_char n]"
proof -
  consider "n < 10" | "10 \<le> n" "n < 100" | "100 \<le> n" using assms by linarith
  then show ?thesis
  proof cases
    case 1
    then show ?thesis by (simp add: padStart_def decimal_1 digit_char_def replicate_2 replicate_3)
  next
    case 2
    then show ?thesis by (simp add: padStart_def decimal_2 digit_char_def replicate_2 replicate_3)
  next
    case 3
    then show ?thesis using assms by (simp add: padStart_def decimal_3)
  qed
qed

lemma padStart_4:
  assumes "n < 10000"
  shows "padStart 4 (decimal n) =
         [digit_char (n div 1000), digit_char (n div 100), digit_char (n div 10), digit_char n]"
proof -
  consider "n < 10" | "10 \<le> n" "n < 100" | "100 \<le> n" "n < 1000" | "1000 \<le> n"
    using assms by linarith
  then show ?thesis
  proof cases
    case 1
    then show ?thesis by (simp add: padStart_def decimal_1 digit_char_def replicate_2 replicate_3)
  next
    case 2
    then show ?thesis by (simp add: padStart_def decimal_2 digit_char_def replicate_2 replicate_3)
  next
    case 3
    then show ?thesis by (simp add: padStart_def decimal_3 digit_char_def)
  next
    case 4
    then show ?thesis using assms by (simp add: padStart_def decimal_4)
  qed
qed

lemma pad2_digits:
  assumes "0 \<le> n" "n < 100"
  shows "pad2 n = [digit_char (nat n div 10), digit_char (nat n)]"
  unfolding pad2_def using assms by (intro padStart_2) simp

lemma pad3_digits:
  assumes "0 \<le> n" "n < 1000"
  shows "pad3 n = [digit_char (nat n div 100), digit_char (nat n div 10), digit_char (nat n)]"
  unfolding pad3_def using assms by (intro padStart_3) simp

lemma isoYear_digits:
  assumes "0 \<le> y" "y \<le> 9999"
  shows "isoYear y = [digit_char (nat y div 1000), digit_char (nat y div 100),
                      digit_char (nat y div 10), digit_char (nat y)]"
proof -
  have "nat y < 10000" using assms by simp
  then show ?thesis unfolding isoYear_def using assms by (simp add: padStart_4)
qed


lemma toISOString_shape:
  assumes "TimeFromYear 0 \<le> t" "t < TimeFromYear 10000"
  shows "matches ''YYYY-MM-DDTHH:mm:ss.mmmZ'' (toISOString t)"
proof -
  have y: "0 \<le> YearFromTime t" "YearFromTime t \<le> 9999"
    using YearFromTime_greatest[OF assms(1)] YearFromTime_less[OF assms(2)] by simp_all
  have m: "0 \<le> MonthFromTime t + 1" "MonthFromTime t + 1 < 100"
    using MonthFromTime_bounds[of t] by simp_all
  have d: "0 \<le> DateFromTime t" "DateFromTime t < 100"
    using DateFromTime_bounds[of t] by simp_all
  have h: "0 \<le> HourFromTime t" "HourFromTime t < 100"
    using HourFromTime_bounds[of t] by simp_all
  have mi: "0 \<le> MinFromTime t" "MinFromTime t < 100"
    using MinFromTime_bounds[of t] by simp_all
  have s: "0 \<le> SecFromTime t" "SecFromTime t < 100"
    using SecFromTime_bounds[of t] by simp_all
  have ms: "0 \<le> msFromTime t" "msFromTime t < 1000"
    using msFromTime_bounds[of t] by simp_all
  show ?thesis
    unfolding toISOString_def isoYear_digits[OF y] pad2_digits[OF m] pad2_digits[OF d]
      pad2_digits[OF h] pad2_digits[OF mi] pad2_digits[OF s] pad3_digits[OF ms]
    by (simp add: is_digit_digit_char)
qed

section \<open>A timestamp reads back to its instant\<close>

lemma digitValue_nth:
  assumes "j < 10"
  shows "digitValue (''0123456789'' ! j) = j"
proof -
  have "j = 0 \<or> j = 1 \<or> j = 2 \<or> j = 3 \<or> j = 4 \<or> j = 5 \<or> j = 6 \<or> j = 7 \<or> j = 8 \<or> j = 9"
    using assms by presburger
  then show ?thesis by (auto simp: digitValue_def)
qed

lemma digitValue_digit_char: "digitValue (digit_char n) = n mod 10"
  unfolding digit_char_def by (rule digitValue_nth) simp

lemma numberOf_2:
  assumes "n < 100"
  shows "numberOf [digit_char (n div 10), digit_char n] = int n"
proof -
  have "n div 10 < 10" using assms by simp
  then have "n div 10 mod 10 = n div 10" by simp
  then show ?thesis
    unfolding numberOf_def by (simp add: digitValue_digit_char)
qed

lemma numberOf_3:
  assumes "n < 1000"
  shows "numberOf [digit_char (n div 100), digit_char (n div 10), digit_char n] = int n"
proof -
  have a: "n div 100 mod 10 = n div 100" using assms by simp
  have b: "10 * (n div 100) + n div 10 mod 10 = n div 10"
    using div_mult_mod_eq[of "n div 10" 10] by (simp add: div_mult2_eq[symmetric])
  have "10 * (10 * (n div 100) + n div 10 mod 10) + n mod 10 = n"
    unfolding b by simp
  then show ?thesis
    unfolding numberOf_def by (simp add: digitValue_digit_char a)
qed

lemma numberOf_4:
  assumes "n < 10000"
  shows "numberOf [digit_char (n div 1000), digit_char (n div 100), digit_char (n div 10),
                   digit_char n] = int n"
proof -
  have a: "n div 1000 mod 10 = n div 1000" using assms by simp
  have c: "10 * (n div 1000) + n div 100 mod 10 = n div 100"
    using div_mult_mod_eq[of "n div 100" 10] by (simp add: div_mult2_eq[symmetric])
  have b: "10 * (n div 100) + n div 10 mod 10 = n div 10"
    using div_mult_mod_eq[of "n div 10" 10] by (simp add: div_mult2_eq[symmetric])
  have "10 * (10 * (10 * (n div 1000) + n div 100 mod 10) + n div 10 mod 10) + n mod 10 = n"
    unfolding c b by simp
  then show ?thesis
    unfolding numberOf_def by (simp add: digitValue_digit_char a)
qed


lemma time_of_day_fields:
  "MakeDate (Day t) (MakeTime (HourFromTime t) (MinFromTime t) (SecFromTime t) (msFromTime t)) = t"
proof -
  define q1 where "q1 = t div 1000"
  define q2 where "q2 = q1 div 60"
  define q3 where "q3 = q2 div 60"
  define q4 where "q4 = q3 div 24"
  have e1: "t = 1000 * q1 + t mod 1000" unfolding q1_def by simp
  have e2: "q1 = 60 * q2 + q1 mod 60" unfolding q2_def by simp
  have e3: "q2 = 60 * q3 + q2 mod 60" unfolding q3_def by simp
  have e4: "q3 = 24 * q4 + q3 mod 24" unfolding q4_def by simp
  have d2: "t div 60000 = q2"
    using zdiv_zmult2_eq[of 60 t 1000] unfolding q2_def q1_def by simp
  have d3: "t div 3600000 = q3"
    using zdiv_zmult2_eq[of 60 t 60000] unfolding q3_def d2[symmetric] by simp
  have d4: "t div 86400000 = q4"
    using zdiv_zmult2_eq[of 24 t 3600000] unfolding q4_def d3[symmetric] by simp
  have "q4 * 86400000 + (q3 mod 24 * 3600000 + q2 mod 60 * 60000 + q1 mod 60 * 1000 + t mod 1000) = t"
    using e1 e2 e3 e4 by linarith
  then show ?thesis
    unfolding MakeDate_def MakeTime_def Day_def msPerDay_def HourFromTime_def MinFromTime_def
      SecFromTime_def msFromTime_def d2 d3 d4 q1_def[symmetric]
    by simp
qed

lemma month_table:
  assumes "0 \<le> d" "d < 365 + l" "l = 0 \<or> l = 1"
    and "m = (if d < 31 then 0
         else if d < 59 + l then 1
         else if d < 90 + l then 2
         else if d < 120 + l then 3
         else if d < 151 + l then 4
         else if d < 181 + l then 5
         else if d < 212 + l then 6
         else if d < 243 + l then 7
         else if d < 273 + l then 8
         else if d < 304 + l then 9
         else if d < 334 + l then 10
         else (11::int))"
  shows "monthStart m l \<le> d \<and> d < monthStart (m + 1) l"
  using assms unfolding monthStart_def by (auto split: if_splits)

lemma month_of_day:
  "monthStart (MonthFromTime t) (InLeapYear t) \<le> DayWithinYear t \<and>
   DayWithinYear t < monthStart (MonthFromTime t + 1) (InLeapYear t)"
proof (rule month_table)
  show "0 \<le> DayWithinYear t" "DayWithinYear t < 365 + InLeapYear t"
    using DayWithinYear_bounds[of t] by simp_all
  show "InLeapYear t = 0 \<or> InLeapYear t = 1" by (rule InLeapYear_cases)
  show "MonthFromTime t =
        (if DayWithinYear t < 31 then 0
         else if DayWithinYear t < 59 + InLeapYear t then 1
         else if DayWithinYear t < 90 + InLeapYear t then 2
         else if DayWithinYear t < 120 + InLeapYear t then 3
         else if DayWithinYear t < 151 + InLeapYear t then 4
         else if DayWithinYear t < 181 + InLeapYear t then 5
         else if DayWithinYear t < 212 + InLeapYear t then 6
         else if DayWithinYear t < 243 + InLeapYear t then 7
         else if DayWithinYear t < 273 + InLeapYear t then 8
         else if DayWithinYear t < 304 + InLeapYear t then 9
         else if DayWithinYear t < 334 + InLeapYear t then 10
         else 11)"
    unfolding MonthFromTime_def Let_def ..
qed

lemma date_of_day:
  "DateFromTime t = DayWithinYear t - monthStart (MonthFromTime t) (InLeapYear t) + 1"
proof -
  have m: "0 \<le> MonthFromTime t" "MonthFromTime t \<le> 11"
    using MonthFromTime_bounds[of t] by simp_all
  define k where "k = MonthFromTime t"
  have "k = 0 \<or> k = 1 \<or> k = 2 \<or> k = 3 \<or> k = 4 \<or> k = 5 \<or> k = 6 \<or> k = 7 \<or>
        k = 8 \<or> k = 9 \<or> k = 10 \<or> k = 11"
    using m unfolding k_def by presburger
  then show ?thesis
    unfolding DateFromTime_def monthStart_def Let_def k_def[symmetric]
    by (elim disjE) simp_all
qed

lemma leapDays_year: "leapDays (YearFromTime t) = InLeapYear t"
  unfolding leapDays_def InLeapYear_def ..

lemma day_fields: "MakeDay (YearFromTime t) (MonthFromTime t) (DateFromTime t) = Day t"
proof -
  have m: "0 \<le> MonthFromTime t" "MonthFromTime t < 12"
    using MonthFromTime_bounds[of t] by simp_all
  have d: "MonthFromTime t div 12 = 0" "MonthFromTime t mod 12 = MonthFromTime t"
    using m by simp_all
  show ?thesis
    unfolding MakeDay_def Let_def d
    using date_of_day[of t]
    by (simp add: leapDays_year DayWithinYear_def)
qed

lemma date_in_month:
  "1 \<le> DateFromTime t \<and>
   DateFromTime t \<le> monthStart (MonthFromTime t + 1) (InLeapYear t) -
                      monthStart (MonthFromTime t) (InLeapYear t)"
  using month_of_day[of t] date_of_day[of t] by linarith


lemma fields_of_timestamp:
  assumes "xs = y1 # y2 # y3 # y4 # c1 # m1 # m2 # c2 # d1 # d2 # c3 # h1 # h2 # c4 #
                n1 # n2 # c5 # s1 # s2 # c6 # f1 # f2 # f3 # rest"
  shows "fieldAt xs 0 4 = numberOf [y1, y2, y3, y4]"
    and "fieldAt xs 5 2 = numberOf [m1, m2]"
    and "fieldAt xs 8 2 = numberOf [d1, d2]"
    and "fieldAt xs 11 2 = numberOf [h1, h2]"
    and "fieldAt xs 14 2 = numberOf [n1, n2]"
    and "fieldAt xs 17 2 = numberOf [s1, s2]"
    and "fieldAt xs 20 3 = numberOf [f1, f2, f3]"
  unfolding assms fieldAt_def by simp_all

lemma numberOf_pad2:
  assumes "0 \<le> n" "n < 100"
  shows "numberOf [digit_char (nat n div 10), digit_char (nat n)] = n"
  using assms numberOf_2[of "nat n"] by simp

lemma numberOf_pad3:
  assumes "0 \<le> n" "n < 1000"
  shows "numberOf [digit_char (nat n div 100), digit_char (nat n div 10), digit_char (nat n)] = n"
  using assms numberOf_3[of "nat n"] by simp

lemma numberOf_pad4:
  assumes "0 \<le> n" "n \<le> 9999"
  shows "numberOf [digit_char (nat n div 1000), digit_char (nat n div 100),
                   digit_char (nat n div 10), digit_char (nat n)] = n"
  using assms numberOf_4[of "nat n"] by simp

lemma toISOString_reads_back:
  assumes "TimeFromYear 0 \<le> t" "t < TimeFromYear 10000"
  shows "timeValueOf (toISOString t) = t \<and> validDate (toISOString t) \<and>
         fieldAt (toISOString t) 11 2 \<le> 23"
proof -
  have y: "0 \<le> YearFromTime t" "YearFromTime t \<le> 9999"
    using YearFromTime_greatest[OF assms(1)] YearFromTime_less[OF assms(2)] by simp_all
  have m: "0 \<le> MonthFromTime t + 1" "MonthFromTime t + 1 < 100"
    using MonthFromTime_bounds[of t] by simp_all
  have d: "0 \<le> DateFromTime t" "DateFromTime t < 100"
    using DateFromTime_bounds[of t] by simp_all
  have h: "0 \<le> HourFromTime t" "HourFromTime t < 100"
    using HourFromTime_bounds[of t] by simp_all
  have mi: "0 \<le> MinFromTime t" "MinFromTime t < 100"
    using MinFromTime_bounds[of t] by simp_all
  have s: "0 \<le> SecFromTime t" "SecFromTime t < 100"
    using SecFromTime_bounds[of t] by simp_all
  have ms: "0 \<le> msFromTime t" "msFromTime t < 1000"
    using msFromTime_bounds[of t] by simp_all
  have f: "fieldAt (toISOString t) 0 4 = YearFromTime t"
    "fieldAt (toISOString t) 5 2 = MonthFromTime t + 1"
    "fieldAt (toISOString t) 8 2 = DateFromTime t"
    "fieldAt (toISOString t) 11 2 = HourFromTime t"
    "fieldAt (toISOString t) 14 2 = MinFromTime t"
    "fieldAt (toISOString t) 17 2 = SecFromTime t"
    "fieldAt (toISOString t) 20 3 = msFromTime t"
    unfolding toISOString_def isoYear_digits[OF y] pad2_digits[OF m] pad2_digits[OF d]
      pad2_digits[OF h] pad2_digits[OF mi] pad2_digits[OF s] pad3_digits[OF ms]
    by (simp_all add: fields_of_timestamp[OF refl] numberOf_pad4[OF y] numberOf_pad2[OF m]
        numberOf_pad2[OF d] numberOf_pad2[OF h] numberOf_pad2[OF mi] numberOf_pad2[OF s]
        numberOf_pad3[OF ms])
  have v: "timeValueOf (toISOString t) = t"
    unfolding timeValueOf_def f by (simp add: day_fields time_of_day_fields)
  have w: "validDate (toISOString t)"
    unfolding validDate_def Let_def f
    using MonthFromTime_bounds[of t] date_in_month[of t] MinFromTime_bounds[of t]
      SecFromTime_bounds[of t]
    by (simp add: leapDays_year)
  show ?thesis using v w HourFromTime_bounds[of t] unfolding f by simp
qed

section \<open>The zoned timestamp\<close>

lemma matches_length: "matches pat s \<Longrightarrow> length s = length pat"
  by (induction pat s rule: matches.induct) simp_all












section \<open>Failures of getCurrentTime\<close>

lemma getCurrentTime_string_failure:
  assumes "getCurrentTime P now (JString tz) = Inl e"
  shows "e = Exception Error (invalidTimezoneMessage tz)"
  using assms unfolding getCurrentTime_def by (auto split: if_splits sum.splits)

lemma zonedIsoString_failure:
  assumes "ToString P timezone = Inr zone" and "timeZoneRules P zone = Inl cause"
  shows "zonedIsoString P now timezone = Inl cause"
  using assms unfolding zonedIsoString_def DateTimeFormat_def by simp

lemma invalidTimezoneMessage_mentions:
  "sublist zone (invalidTimezoneMessage zone)"
  "sublist ''America/New_York'' (invalidTimezoneMessage zone)"
  "sublist ''Europe/London'' (invalidTimezoneMessage zone)"
  "sublist ''UTC'' (invalidTimezoneMessage zone)"
proof -
  let ?pre = "''Invalid timezone: '' @ zone"
  show "sublist zone (invalidTimezoneMessage zone)"
    unfolding invalidTimezoneMessage_def by (rule sublist_appendI)
  have a: "invalidTimezoneMessage zone =
    (?pre @ ''. Please provide a valid IANA timezone identifier (e.g., ''  @ [CHR 0x27]) @
    ''America/New_York'' @ ''', 'Europe/London', 'UTC').''"
    unfolding invalidTimezoneMessage_def by simp
  show "sublist ''America/New_York'' (invalidTimezoneMessage zone)"
    unfolding a by (rule sublist_appendI)
  have b: "invalidTimezoneMessage zone =
    (?pre @ ''. Please provide a valid IANA timezone identifier (e.g., 'America/New_York', ''  @ [CHR 0x27]) @
    ''Europe/London'' @ ''', 'UTC').''"
    unfolding invalidTimezoneMessage_def by simp
  show "sublist ''Europe/London'' (invalidTimezoneMessage zone)"
    unfolding b by (rule sublist_appendI)
  have c: "invalidTimezoneMessage zone =
    (?pre @ ''. Please provide a valid IANA timezone identifier (e.g., 'America/New_York', 'Europe/London', ''  @ [CHR 0x27]) @
    ''UTC'' @ ''').''"
    unfolding invalidTimezoneMessage_def by simp
  show "sublist ''UTC'' (invalidTimezoneMessage zone)"
    unfolding c by (rule sublist_appendI)
qed

section \<open>The handlers over the process state\<close>

lemma getCurrentTimeM_run:
  "run_state (getCurrentTimeM P timezone) w = (getCurrentTime P (clock w) timezone, w)"
  unfolding getCurrentTimeM_def newDate_def by simp

lemma callToolM_run:
  "run_state (callToolM P toolName args) w = (callTool P (clock w) toolName args, w)"
  unfolding callToolM_def callTool_def by (simp add: getCurrentTimeM_run)

lemma listToolsM_run: "run_state listToolsM w = ([toolObject w], w)"
  unfolding listToolsM_def readToolObject_def by simp

lemma serveM_frame: "snd (run_state (serveM P rq) w) = w"
  unfolding serveM_def by (cases rq) (simp_all add: callToolM_run listToolsM_run)

lemma runM_frame: "snd (runM P events w) = w\<lparr>clock := clock (snd (runM P events w))\<rparr>"
proof (induction events arbitrary: w)
  case Nil
  show ?case by simp
next
  case (Cons ev events)
  show ?case
  proof (cases ev)
    case (ClockMoves t)
    have "snd (runM P events (w\<lparr>clock := t\<rparr>)) =
        (w\<lparr>clock := t\<rparr>)\<lparr>clock := clock (snd (runM P events (w\<lparr>clock := t\<rparr>)))\<rparr>"
      by (rule Cons.IH)
    then show ?thesis using ClockMoves by simp
  next
    case (Incoming rq)
    obtain r where r: "run_state (serveM P rq) w = (r, w)"
      using serveM_frame[of P rq w] by (cases "run_state (serveM P rq) w") simp
    obtain rs w' where rs: "runM P events w = (rs, w')" by (cases "runM P events w")
    have "snd (runM P (ev # events) w) = snd (runM P events w)"
      using Incoming r rs by simp
    then show ?thesis using Cons.IH[of w] by simp
  qed
qed

section \<open>Sample runs\<close>

lemma sample_utc: "toISOString 1761167371654 = ''2025-10-22T21:09:31.654Z''"
  by code_simp

lemma sample_range: "TimeFromYear 0 \<le> 1761167371654" "1761167371654 < TimeFromYear 10000"
  by (simp_all add: TimeFromYear_def DayFromYear_def msPerDay_def)


lemma sample_zoned:
  "getCurrentTime samplePlatform 1761167371654 (JString ''Asia/Kolkata'') =
     Inr ''2025-10-23T02:39:31.654''"
  by code_simp

lemma sample_offset_zone:
  "getCurrentTime samplePlatform 1761167371654 (JString ''+05:30'') =
     Inr ''2025-10-23T02:39:31.654''"
  by code_simp

lemma fields_year_10000:
  "YearFromTime 253402300800000 = 10000"
  "MonthFromTime 253402300800000 = 0"
  "DateFromTime 253402300800000 = 1"
  "HourFromTime 253402300800000 = 0"
  "MinFromTime 253402300800000 = 0"
  "SecFromTime 253402300800000 = 0"
  "msFromTime 253402300800000 = 0"
  by (simp_all add: YearFromTime_def YearFromDay_def Day_def msPerDay_def Let_def
      MonthFromTime_def DateFromTime_def DayWithinYear_def InLeapYear_def DaysInYear_def
      DayFromYear_def HourFromTime_def MinFromTime_def SecFromTime_def msFromTime_def)

lemma decimal_10000: "decimal 10000 = ''10000''"
proof -
  have "decimal 10000 = decimal 1000 @ [digit_char 10000]"
    using decimal.simps[of 10000] by simp
  also have "decimal 1000 = [digit_char 1, digit_char 10, digit_char 100, digit_char 1000]"
    using decimal_4[of 1000] by simp
  finally show ?thesis by (simp add: digit_char_def)
qed

lemma pads_of_small:
  "pad2 0 = ''00''" "pad2 1 = ''01''" "pad3 0 = ''000''"
  using pad2_digits[of 0] pad2_digits[of 1] pad3_digits[of 0] by (simp_all add: digit_char_def)

lemma sample_utc_year_10000:
  "toISOString 253402300800000 = ''+010000-01-01T00:00:00.000Z''"
  unfolding toISOString_def fields_year_10000 isoYear_def
  by (simp add: pads_of_small decimal_10000 padStart_def)


lemma sample_unconvertible:
  "getCurrentTime samplePlatform 1761167371654 (JObject [(''toString'', JNumber 1)]) =
     Inl (Exception TypeError ''Cannot convert object to primitive value'')"
  by code_simp

section \<open>The claims\<close>

text \<open>
  C1.  A call of \<open>getCurrentTime\<close> whose \<open>timezone\<close> argument is a string \<open>tz\<close> for which
  the time formatter fails is answered, not aborted: the handler returns (\<open>Inr\<close>) a
  response with \<open>isError\<close> true and a single text item that reads
  \<open>Error: Invalid timezone: \<close> followed by \<open>tz\<close> (and then the hint about IANA names).
\<close>

theorem invalid_timezone_is_reported:
  assumes "argsTimezone args = JString tz"
    and "getCurrentTime P now (JString tz) = Inl e"
  shows "callTool P now ''getCurrentTime'' args =
           Inr \<lparr> content =
                   [\<lparr> type = ''text'',
                      text = ''Error: Invalid timezone: '' @ tz @
                        ''. Please provide a valid IANA timezone identifier (e.g., 'America/New_York', 'Europe/London', 'UTC').'' \<rparr>],
                 isError = Some True \<rparr>"
proof -
  have "e = Exception Error (invalidTimezoneMessage tz)"
    using assms(2) by (rule getCurrentTime_string_failure)
  then show ?thesis
    using assms unfolding callTool_def invalidTimezoneMessage_def by simp
qed

theorem invalid_timezone_is_reported_witness:
  "argsTimezone (Some [''timezone'' \<mapsto> JString ''Invalid/Zone'']) = JString ''Invalid/Zone'' \<and>
   getCurrentTime samplePlatform 1761167371654 (JString ''Invalid/Zone'') =
     Inl (Exception Error (invalidTimezoneMessage ''Invalid/Zone'')) \<and>
   callTool samplePlatform 1761167371654 ''getCurrentTime''
       (Some [''timezone'' \<mapsto> JString ''Invalid/Zone'']) =
     Inr \<lparr> content =
             [\<lparr> type = ''text'',
                text = ''Error: Invalid timezone: Invalid/Zone. Please provide a valid IANA timezone identifier (e.g., 'America/New_York', 'Europe/London', 'UTC').'' \<rparr>],
           isError = Some True \<rparr>"
proof -
  have a: "argsTimezone (Some [''timezone'' \<mapsto> JString ''Invalid/Zone'']) = JString ''Invalid/Zone''"
    by (simp add: argsTimezone_def)
  have b: "getCurrentTime samplePlatform 1761167371654 (JString ''Invalid/Zone'') =
     Inl (Exception Error (invalidTimezoneMessage ''Invalid/Zone''))"
    by (simp add: getCurrentTime_def zonedIsoString_def DateTimeFormat_def samplePlatform_def)
  show ?thesis
    using a b invalid_timezone_is_reported[OF a b] by (simp add: invalidTimezoneMessage_def)
qed

text \<open>
  C2, as amended.  With the \<open>timezone\<close> argument absent (\<open>undefined\<close>) or the empty
  string, \<open>getCurrentTime\<close> does not fail and returns a string that ends in the
  designator \<open>Z\<close>.  Whenever the captured instant lies in the years 0000 to 9999 (UTC),
  that string has the shape \<open>YYYY-MM-DDTHH:mm:ss.mmmZ\<close>, 24 characters, its fields are
  those of a calendar date and a time of day, and read as a UTC date and time they give
  back the captured instant to the millisecond.
\<close>

theorem utc_timestamp_without_timezone:
  assumes "timezone = JUndefined \<or> timezone = JString []"
  shows "\<exists>s. getCurrentTime P now timezone = Inr s \<and> last s = CHR ''Z'' \<and>
           (TimeFromYear 0 \<le> now \<and> now < TimeFromYear 10000 \<longrightarrow>
              matches ''YYYY-MM-DDTHH:mm:ss.mmmZ'' s \<and> length s = 24 \<and>
              validDate s \<and> fieldAt s 11 2 \<le> 23 \<and> timeValueOf s = now)"
proof -
  have "\<not> truthy timezone" using assms by auto
  then have g: "getCurrentTime P now timezone = Inr (toISOString now)"
    unfolding getCurrentTime_def by simp
  have z: "last (toISOString now) = CHR ''Z''"
    unfolding toISOString_def by simp
  have r: "matches ''YYYY-MM-DDTHH:mm:ss.mmmZ'' (toISOString now) \<and>
      length (toISOString now) = 24 \<and> validDate (toISOString now) \<and>
      fieldAt (toISOString now) 11 2 \<le> 23 \<and> timeValueOf (toISOString now) = now"
    if "TimeFromYear 0 \<le> now" "now < TimeFromYear 10000"
    using toISOString_shape[OF that] matches_length[OF toISOString_shape[OF that]]
      toISOString_reads_back[OF that] by simp
  show ?thesis using g z r by blast
qed

theorem utc_timestamp_without_timezone_witness:
  "(JString [] = JUndefined \<or> JString [] = JString []) \<and>
   TimeFromYear 0 \<le> 1761167371654 \<and> 1761167371654 < TimeFromYear 10000 \<and>
   (\<exists>s. getCurrentTime samplePlatform 1761167371654 (JString []) = Inr s \<and>
      s = ''2025-10-22T21:09:31.654Z'' \<and> last s = CHR ''Z'' \<and>
      matches ''YYYY-MM-DDTHH:mm:ss.mmmZ'' s \<and> length s = 24 \<and>
      validDate s \<and> fieldAt s 11 2 \<le> 23 \<and> timeValueOf s = 1761167371654)"
proof -
  have a: "JString [] = JUndefined \<or> JString [] = JString []" by simp
  obtain s where s: "getCurrentTime samplePlatform 1761167371654 (JString []) = Inr s"
    "last s = CHR ''Z''"
    "TimeFromYear 0 \<le> 1761167371654 \<and> 1761167371654 < TimeFromYear 10000 \<longrightarrow>
       matches ''YYYY-MM-DDTHH:mm:ss.mmmZ'' s \<and> length s = 24 \<and>
       validDate s \<and> fieldAt s 11 2 \<le> 23 \<and> timeValueOf s = 1761167371654"
    using utc_timestamp_without_timezone[OF a, of samplePlatform 1761167371654] by auto
  have "getCurrentTime samplePlatform 1761167371654 (JString []) = Inr ''2025-10-22T21:09:31.654Z''"
    using sample_utc by (simp add: getCurrentTime_def)
  then have e: "s = ''2025-10-22T21:09:31.654Z''" using s(1) by simp
  show ?thesis using a sample_range s e by blast
qed

text \<open>
  C2 as stated, for every call, does not hold: at the first instant of the year 10000
  \<open>toISOString\<close> writes the year with a sign and six digits.
\<close>

theorem utc_timestamp_in_year_10000:
  "getCurrentTime samplePlatform 253402300800000 JUndefined = Inr ''+010000-01-01T00:00:00.000Z'' \<and>
   \<not> matches ''YYYY-MM-DDTHH:mm:ss.mmmZ'' ''+010000-01-01T00:00:00.000Z''"
  using sample_utc_year_10000 by (simp add: getCurrentTime_def is_digit_def)




text \<open>
  C4, as amended.  For every non-empty string \<open>tz\<close> that the constructor of
  \<open>Intl.DateTimeFormat\<close> rejects as a time zone, \<open>getCurrentTime\<close> fails with an \<open>Error\<close>
  whose message is \<open>Invalid timezone: \<close>, \<open>tz\<close>, and the hint; the message contains \<open>tz\<close>
  and the examples \<open>America/New_York\<close>, \<open>Europe/London\<close> and \<open>UTC\<close>.
\<close>

theorem unrecognised_zone_is_rejected:
  assumes "tz \<noteq> []" and "timeZoneRules P tz = Inl cause"
  shows "\<exists>msg. getCurrentTime P now (JString tz) = Inl (Exception Error msg) \<and>
           msg = ''Invalid timezone: '' @ tz @
             ''. Please provide a valid IANA timezone identifier (e.g., 'America/New_York', 'Europe/London', 'UTC').'' \<and>
           sublist tz msg \<and> sublist ''America/New_York'' msg \<and>
           sublist ''Europe/London'' msg \<and> sublist ''UTC'' msg"
proof -
  have "zonedIsoString P now (JString tz) = Inl cause"
    using assms(2) by (intro zonedIsoString_failure) simp_all
  then have "getCurrentTime P now (JString tz) =
      Inl (Exception Error (invalidTimezoneMessage tz))"
    using assms(1) unfolding getCurrentTime_def by simp
  moreover have "invalidTimezoneMessage tz = ''Invalid timezone: '' @ tz @
      ''. Please provide a valid IANA timezone identifier (e.g., 'America/New_York', 'Europe/London', 'UTC').''"
    unfolding invalidTimezoneMessage_def by simp
  ultimately show ?thesis
    using invalidTimezoneMessage_mentions[of tz] by simp
qed

theorem unrecognised_zone_is_rejected_witness:
  "''Not/AZone'' \<noteq> [] \<and>
   timeZoneRules samplePlatform ''Not/AZone'' =
     Inl (Exception RangeError ''Invalid time zone specified: Not/AZone'') \<and>
   (\<exists>msg. getCurrentTime samplePlatform 1761167371654 (JString ''Not/AZone'') =
            Inl (Exception Error msg) \<and>
          msg = ''Invalid timezone: Not/AZone. Please provide a valid IANA timezone identifier (e.g., 'America/New_York', 'Europe/London', 'UTC').'' \<and>
          sublist ''Not/AZone'' msg \<and> sublist ''America/New_York'' msg \<and>
          sublist ''Europe/London'' msg \<and> sublist ''UTC'' msg)"
proof -
  have a: "''Not/AZone'' \<noteq> []" by simp
  have b: "timeZoneRules samplePlatform ''Not/AZone'' =
     Inl (Exception RangeError ''Invalid time zone specified: Not/AZone'')"
    by (simp add: samplePlatform_def)
  show ?thesis
    using a b unrecognised_zone_is_rejected[OF a b, of 1761167371654] by simp
qed

text \<open>
  C4 as stated, for every string that is not a recognised IANA zone name, does not
  hold.  The empty string is no zone name, yet the guard \<open>if (!timezone)\<close> sends it down
  the UTC path and the call succeeds; and a UTC offset such as \<open>+05:30\<close> is no IANA
  zone name, yet an engine that accepts offsets formats the time for it.
\<close>

theorem empty_zone_is_not_rejected:
  "timeZoneRules samplePlatform [] = Inl (Exception RangeError ''Invalid time zone specified: '') \<and>
   getCurrentTime samplePlatform 1761167371654 (JString []) = Inr ''2025-10-22T21:09:31.654Z'' \<and>
   getCurrentTime samplePlatform 1761167371654 (JString ''+05:30'') = Inr ''2025-10-23T02:39:31.654''"
  using sample_utc sample_offset_zone by (simp add: samplePlatform_def getCurrentTime_def)

text \<open>
  C5.  A call that names any tool other than \<open>getCurrentTime\<close> makes the handler throw
  an \<open>Error\<close> with the message \<open>Unknown tool: \<close> followed by the name.  The \<open>throw\<close>
  stands before the \<open>try\<close> block, so the exception leaves the handler (\<open>Inl\<close>, a
  \<open>Fault\<close> of the server step) instead of becoming an \<open>isError\<close> response; the call
  still ends with that fault as its outcome.
\<close>

theorem unknown_tool_raises:
  assumes "toolName \<noteq> ''getCurrentTime''"
  shows "callTool P now toolName args = Inl (Exception Error (''Unknown tool: '' @ toolName)) \<and>
         handle P now (CallToolRequest toolName args) =
           Fault (Exception Error (''Unknown tool: '' @ toolName))"
  using assms unfolding handle_def callTool_def by simp

theorem unknown_tool_raises_witness:
  "''nonexistentTool'' \<noteq> ''getCurrentTime'' \<and>
   callTool samplePlatform 0 ''nonexistentTool'' (Some Map.empty) =
     Inl (Exception Error ''Unknown tool: nonexistentTool'') \<and>
   handle samplePlatform 0 (CallToolRequest ''nonexistentTool'' (Some Map.empty)) =
     Fault (Exception Error ''Unknown tool: nonexistentTool'')"
proof -
  have a: "''nonexistentTool'' \<noteq> ''getCurrentTime''" by simp
  show ?thesis
    using a unknown_tool_raises[OF a, of samplePlatform 0 "Some Map.empty"] by simp
qed

text \<open>
  C6, as amended.  Whenever \<open>getCurrentTime\<close> succeeds on the \<open>timezone\<close> argument of a
  call, the handler returns a response whose content is exactly one text item holding
  the formatted timestamp, and whose error flag is false (the object has no \<open>isError\<close>
  field).  In particular the call with the empty arguments object returns the UTC
  timestamp in one text item; whenever the instant lies in the years 0000 to 9999 that
  text has the shape \<open>YYYY-MM-DDTHH:mm:ss.mmmZ\<close> and reads back to the instant.
\<close>

theorem success_is_wrapped:
  assumes "getCurrentTime P now (argsTimezone args) = Inr s"
  shows "(\<exists>r. callTool P now ''getCurrentTime'' args = Inr r \<and>
              content r = [\<lparr> type = ''text'', text = s \<rparr>] \<and>
              isError r = None \<and> \<not> isErrorFlag r) \<and>
         (\<exists>r. callTool P now ''getCurrentTime'' (Some Map.empty) = Inr r \<and>
              content r = [\<lparr> type = ''text'', text = toISOString now \<rparr>] \<and>
              isError r = None \<and> \<not> isErrorFlag r \<and>
              (TimeFromYear 0 \<le> now \<and> now < TimeFromYear 10000 \<longrightarrow>
                 matches ''YYYY-MM-DDTHH:mm:ss.mmmZ'' (toISOString now) \<and>
                 timeValueOf (toISOString now) = now))"
proof -
  have a: "callTool P now ''getCurrentTime'' args =
      Inr \<lparr> content = [\<lparr> type = ''text'', text = s \<rparr>], isError = None \<rparr>"
    using assms unfolding callTool_def by simp
  have e: "argsTimezone (Some Map.empty) = JUndefined" by (simp add: argsTimezone_def)
  have b: "callTool P now ''getCurrentTime'' (Some Map.empty) =
      Inr \<lparr> content = [\<lparr> type = ''text'', text = toISOString now \<rparr>], isError = None \<rparr>"
    unfolding callTool_def e getCurrentTime_def by simp
  have c: "matches ''YYYY-MM-DDTHH:mm:ss.mmmZ'' (toISOString now) \<and>
      timeValueOf (toISOString now) = now"
    if "TimeFromYear 0 \<le> now \<and> now < TimeFromYear 10000"
    using that toISOString_shape toISOString_reads_back by blast
  show ?thesis using a b c by (simp add: isErrorFlag_def)
qed

theorem success_is_wrapped_witness:
  "getCurrentTime samplePlatform 1761167371654
      (argsTimezone (Some [''timezone'' \<mapsto> JString ''Asia/Kolkata''])) =
     Inr ''2025-10-23T02:39:31.654'' \<and>
   TimeFromYear 0 \<le> 1761167371654 \<and> 1761167371654 < TimeFromYear 10000 \<and>
   (\<exists>r. callTool samplePlatform 1761167371654 ''getCurrentTime''
           (Some [''timezone'' \<mapsto> JString ''Asia/Kolkata'']) = Inr r \<and>
        content r = [\<lparr> type = ''text'', text = ''2025-10-23T02:39:31.654'' \<rparr>] \<and>
        isError r = None \<and> \<not> isErrorFlag r) \<and>
   (\<exists>r. callTool samplePlatform 1761167371654 ''getCurrentTime'' (Some Map.empty) = Inr r \<and>
        content r = [\<lparr> type = ''text'', text = ''2025-10-22T21:09:31.654Z'' \<rparr>] \<and>
        isError r = None \<and> \<not> isErrorFlag r \<and>
        matches ''YYYY-MM-DDTHH:mm:ss.mmmZ'' ''2025-10-22T21:09:31.654Z'' \<and>
        timeValueOf ''2025-10-22T21:09:31.654Z'' = 1761167371654)"
proof -
  have a: "getCurrentTime samplePlatform 1761167371654
      (argsTimezone (Some [''timezone'' \<mapsto> JString ''Asia/Kolkata''])) =
     Inr ''2025-10-23T02:39:31.654''"
    using sample_zoned by (simp add: argsTimezone_def)
  show ?thesis
    using a sample_range success_is_wrapped[OF a] unfolding sample_utc by simp
qed

text \<open>
  C6 as stated does not hold in its last part: at the first instant of the year 10000
  the call with the empty arguments object returns a text of 27 characters.
\<close>

theorem empty_arguments_in_year_10000:
  "callTool samplePlatform 253402300800000 ''getCurrentTime'' (Some Map.empty) =
     Inr \<lparr> content = [\<lparr> type = ''text'', text = ''+010000-01-01T00:00:00.000Z'' \<rparr>],
           isError = None \<rparr> \<and>
   \<not> matches ''YYYY-MM-DDTHH:mm:ss.mmmZ'' ''+010000-01-01T00:00:00.000Z''"
  using sample_utc_year_10000
  by (simp add: callTool_def argsTimezone_def getCurrentTime_def is_digit_def)

text \<open>
  C7.  The list handler returns exactly one descriptor.  Its name is
  \<open>getCurrentTime\<close>; its input schema is an object schema with the single property
  \<open>timezone\<close>, of type string, and no \<open>required\<close> list, so the property is optional.
  The handler returns this list at every instant and leaves the process memory as it
  was.
\<close>

theorem listTools_single_descriptor:
  "listTools = [GET_CURRENT_TIME_TOOL] \<and>
   length listTools = 1 \<and>
   map name listTools = [''getCurrentTime''] \<and>
   input_schema.type (inputSchema GET_CURRENT_TIME_TOOL) = ''object'' \<and>
   map fst (properties (inputSchema GET_CURRENT_TIME_TOOL)) = [''timezone''] \<and>
   map (\<lambda>p. schema_property.type (snd p)) (properties (inputSchema GET_CURRENT_TIME_TOOL)) =
     [''string''] \<and>
   required (inputSchema GET_CURRENT_TIME_TOOL) = None \<and>
   handle P now ListToolsRequest = ToolsResult listTools \<and>
   step P mem (now, ListToolsRequest) = (ToolsResult listTools, mem)"
  unfolding listTools_def GET_CURRENT_TIME_TOOL_def handle_def step_def by simp

text \<open>
  C8.  Run as a program over the process state, the call handler reads the clock and
  nothing else: it returns the state as it found it, and its reply is the value of
  \<open>callTool\<close> at the clock's reading, so two calls with the same arguments get the same
  reply in any two states whose clocks agree, whatever else the states hold.  Serving
  any request leaves the state as it was; after any sequence of requests and clock
  movements the state differs from the initial one in the clock at most; hence the
  reply to a call does not depend on how many requests, or which, were served before.
\<close>

theorem call_reply_fixed_by_arguments_and_clock:
  "run_state (callToolM P toolName args) w = (callTool P (clock w) toolName args, w) \<and>
   (clock w1 = clock w2 \<longrightarrow>
      fst (run_state (callToolM P toolName args) w1) =
      fst (run_state (callToolM P toolName args) w2)) \<and>
   snd (run_state (serveM P rq) w) = w \<and>
   snd (runM P events w) = w\<lparr>clock := clock (snd (runM P events w))\<rparr> \<and>
   (clock (snd (runM P events1 w1)) = clock (snd (runM P events2 w2)) \<longrightarrow>
      fst (run_state (callToolM P toolName args) (snd (runM P events1 w1))) =
      fst (run_state (callToolM P toolName args) (snd (runM P events2 w2))))"
  using runM_frame[of P events w] serveM_frame[of P rq w] by (simp add: callToolM_run)

theorem call_reply_fixed_by_arguments_and_clock_witness:
  "clock \<lparr>clock = 1761167371654, toolObject = GET_CURRENT_TIME_TOOL\<rparr> =
     clock \<lparr>clock = 1761167371654, toolObject = GET_CURRENT_TIME_TOOL\<lparr>name := ''renamed''\<rparr>\<rparr> \<and>
   fst (run_state (callToolM samplePlatform ''getCurrentTime'' None)
          \<lparr>clock = 1761167371654, toolObject = GET_CURRENT_TIME_TOOL\<rparr>) =
   fst (run_state (callToolM samplePlatform ''getCurrentTime'' None)
          \<lparr>clock = 1761167371654, toolObject = GET_CURRENT_TIME_TOOL\<lparr>name := ''renamed''\<rparr>\<rparr>) \<and>
   clock (snd (runM samplePlatform
            [Incoming (CallToolRequest ''getCurrentTime'' None), ClockMoves 1761167371654]
            \<lparr>clock = 0, toolObject = GET_CURRENT_TIME_TOOL\<rparr>)) =
   clock (snd (runM samplePlatform
            [ClockMoves 1761167371654, Incoming ListToolsRequest,
             Incoming (CallToolRequest ''nonexistentTool'' None)]
            \<lparr>clock = 5, toolObject = GET_CURRENT_TIME_TOOL\<rparr>)) \<and>
   fst (run_state (callToolM samplePlatform ''getCurrentTime'' None)
          (snd (runM samplePlatform
            [Incoming (CallToolRequest ''getCurrentTime'' None), ClockMoves 1761167371654]
            \<lparr>clock = 0, toolObject = GET_CURRENT_TIME_TOOL\<rparr>))) =
   fst (run_state (callToolM samplePlatform ''getCurrentTime'' None)
          (snd (runM samplePlatform
            [ClockMoves 1761167371654, Incoming ListToolsRequest,
             Incoming (CallToolRequest ''nonexistentTool'' None)]
            \<lparr>clock = 5, toolObject = GET_CURRENT_TIME_TOOL\<rparr>)))"
proof -
  let ?w1 = "\<lparr>clock = 1761167371654, toolObject = GET_CURRENT_TIME_TOOL\<rparr>"
  let ?w2 = "\<lparr>clock = 1761167371654, toolObject = GET_CURRENT_TIME_TOOL\<lparr>name := ''renamed''\<rparr>\<rparr>"
  let ?e1 = "[Incoming (CallToolRequest ''getCurrentTime'' None), ClockMoves 1761167371654]"
  let ?e2 = "[ClockMoves 1761167371654, Incoming ListToolsRequest,
             Incoming (CallToolRequest ''nonexistentTool'' None)]"
  let ?v1 = "\<lparr>clock = 0, toolObject = GET_CURRENT_TIME_TOOL\<rparr>"
  let ?v2 = "\<lparr>clock = 5, toolObject = GET_CURRENT_TIME_TOOL\<rparr>"
  have a: "clock ?w1 = clock ?w2" by simp
  have f1: "snd (run_state (serveM samplePlatform (CallToolRequest ''getCurrentTime'' None)) ?v1) = ?v1"
    by (rule serveM_frame)
  have c1: "clock (snd (runM samplePlatform ?e1 ?v1)) = 1761167371654"
    using f1 by (simp add: split_beta)
  have c2: "clock (snd (runM samplePlatform ?e2 ?v2)) = 1761167371654"
    using serveM_frame[of samplePlatform ListToolsRequest "?v2\<lparr>clock := 1761167371654\<rparr>"]
      serveM_frame[of samplePlatform "CallToolRequest ''nonexistentTool'' None"
        "?v2\<lparr>clock := 1761167371654\<rparr>"]
    by (simp add: split_beta)
  have b: "clock (snd (runM samplePlatform ?e1 ?v1)) = clock (snd (runM samplePlatform ?e2 ?v2))"
    using c1 c2 by simp
  show ?thesis
    using a b
      call_reply_fixed_by_arguments_and_clock[of samplePlatform "''getCurrentTime''" None
        ?w1 ?w1 ?w2 ListToolsRequest "[]"]
      call_reply_fixed_by_arguments_and_clock[of samplePlatform "''getCurrentTime''" None
        ?v1 "snd (runM samplePlatform ?e1 ?v1)" "snd (runM samplePlatform ?e2 ?v2)"
        ListToolsRequest "[]"]
    by blast
qed

text \<open>
  C9, as amended.  Whatever exception \<open>cause\<close> the \<open>try\<close> block of \<open>getCurrentTime\<close> ends
  with, for any \<open>timezone\<close> value (a string or not) that converts to a string \<open>zone\<close>,
  the function throws an \<open>Error\<close> with the fixed message \<open>Invalid timezone: <zone>.
  Please provide a valid IANA timezone identifier (e.g., 'America/New_York',
  'Europe/London', 'UTC').\<close>, and the caller of the tool reads that message after
  \<open>Error: \<close>.  Neither mentions \<open>cause\<close>.
\<close>

theorem formatting_failure_is_masked:
  assumes "truthy timezone"
    and "zonedIsoString P now timezone = Inl cause"
    and "ToString P timezone = Inr zone"
  shows "getCurrentTime P now timezone =
           Inl (Exception Error
             (''Invalid timezone: '' @ zone @
              ''. Please provide a valid IANA timezone identifier (e.g., 'America/New_York', 'Europe/London', 'UTC').'')) \<and>
         callTool P now ''getCurrentTime'' (Some [''timezone'' \<mapsto> timezone]) =
           Inr \<lparr> content =
                   [\<lparr> type = ''text'',
                      text = ''Error: Invalid timezone: '' @ zone @
                        ''. Please provide a valid IANA timezone identifier (e.g., 'America/New_York', 'Europe/London', 'UTC').'' \<rparr>],
                 isError = Some True \<rparr>"
proof -
  have g: "getCurrentTime P now timezone = Inl (Exception Error (invalidTimezoneMessage zone))"
    using assms unfolding getCurrentTime_def by simp
  have a: "argsTimezone (Some [''timezone'' \<mapsto> timezone]) = timezone"
    by (simp add: argsTimezone_def)
  show ?thesis
    using g unfolding callTool_def a by (simp add: invalidTimezoneMessage_def)
qed

theorem formatting_failure_is_masked_witness:
  "truthy (JNumber 5) \<and>
   zonedIsoString samplePlatform 1761167371654 (JNumber 5) =
     Inl (Exception RangeError ''Invalid time zone specified: 5'') \<and>
   ToString samplePlatform (JNumber 5) = Inr ''5'' \<and>
   getCurrentTime samplePlatform 1761167371654 (JNumber 5) =
     Inl (Exception Error ''Invalid timezone: 5. Please provide a valid IANA timezone identifier (e.g., 'America/New_York', 'Europe/London', 'UTC').'') \<and>
   callTool samplePlatform 1761167371654 ''getCurrentTime'' (Some [''timezone'' \<mapsto> JNumber 5]) =
     Inr \<lparr> content =
             [\<lparr> type = ''text'',
                text = ''Error: Invalid timezone: 5. Please provide a valid IANA timezone identifier (e.g., 'America/New_York', 'Europe/London', 'UTC').'' \<rparr>],
           isError = Some True \<rparr>"
proof -
  have a: "truthy (JNumber 5)" by simp
  have c: "ToString samplePlatform (JNumber 5) = Inr ''5''"
    by (simp add: samplePlatform_def decimal_1 digit_char_def)
  have r: "timeZoneRules samplePlatform ''5'' =
     Inl (Exception RangeError ''Invalid time zone specified: 5'')"
    by (simp add: samplePlatform_def)
  have b: "zonedIsoString samplePlatform 1761167371654 (JNumber 5) =
     Inl (Exception RangeError ''Invalid time zone specified: 5'')"
    using c r by (rule zonedIsoString_failure)
  show ?thesis
    using a b c formatting_failure_is_masked[OF a b c] by simp
qed

text \<open>
  C9 as stated, for every failure, does not hold: for the object \<open>{"toString": 1}\<close> the
  conversion to a string throws a \<open>TypeError\<close> in the constructor and again in the
  template literal of the \<open>catch\<close> block, so that exception leaves \<open>getCurrentTime\<close> and
  the caller reads the engine's message.
\<close>

theorem unconvertible_timezone_is_not_masked:
  "getCurrentTime samplePlatform 1761167371654 (JObject [(''toString'', JNumber 1)]) =
     Inl (Exception TypeError ''Cannot convert object to primitive value'') \<and>
   callTool samplePlatform 1761167371654 ''getCurrentTime''
       (Some [''timezone'' \<mapsto> JObject [(''toString'', JNumber 1)]]) =
     Inr \<lparr> content =
             [\<lparr> type = ''text'', text = ''Error: Cannot convert object to primitive value'' \<rparr>],
           isError = Some True \<rparr>"
  using sample_unconvertible by (simp add: callTool_def argsTimezone_def)

text \<open>
  C10.  For every arguments value, the handler answers a call of \<open>getCurrentTime\<close> with
  a response (it does not throw) whose content is a list of exactly one item, of type
  \<open>text\<close>.
\<close>

theorem getCurrentTime_response_is_one_text_item:
  "\<exists>t e. callTool P now ''getCurrentTime'' args =
           Inr \<lparr> content = [\<lparr> type = ''text'', text = t \<rparr>], isError = e \<rparr>"
  unfolding callTool_def
  by (cases "getCurrentTime P now (argsTimezone args)") (simp_all split: thrown.splits)

end
